theory Spec2Isabelle
  imports Complex_Main "HOL-Library.Multiset" "HOL-Library.Char_ord" "HOL-Library.List_Lexorder"
    "HOL-Library.Log_Nat"
begin

section \<open>Errors\<close>

text \<open>
  The notebook catches nothing, so every Python exception ends the cell that raises it.
  A cell that can raise returns \<open>error + 'a\<close>, with \<open>Inl\<close> for the exception.
\<close>

datatype error = ZeroDivisionError | KeyError string | ValueError | IndexError

section \<open>Baseline evaluation: the scorer\<close>

subsection \<open>The joined frame and its correctness flag\<close>

text \<open>
  \<^verbatim>\<open>results_df = pd.concat([df_test[["text", "label"]]..., results_df], axis=1)\<close> has the
  columns \<^verbatim>\<open>text\<close>, \<^verbatim>\<open>label\<close> (the true label, already replaced by its name),
  \<^verbatim>\<open>pred\<close> and \<^verbatim>\<open>score\<close>. A frame is the list of its rows, in index order
  \<open>0, 1, ...\<close> (both sides were \<^verbatim>\<open>reset_index\<close>ed). The column \<^verbatim>\<open>text\<close> is called
  \<open>review_text\<close> here. A float is the rational number it denotes.
\<close>

record joined_row =
  review_text :: string
  label :: string
  pred :: string
  score :: rat

record results_row = joined_row +
  Correct :: bool

text \<open>\<^verbatim>\<open>results_df["Correct"] = results_df["label"].eq(results_df["pred"])\<close>\<close>

definition add_Correct :: "joined_row \<Rightarrow> results_row" where
  "add_Correct r =
     \<lparr>review_text = review_text r, label = label r, pred = pred r, score = score r,
      Correct = (label r = pred r)\<rparr>"

definition results_df :: "joined_row list \<Rightarrow> results_row list" where
  "results_df joined = map add_Correct joined"

subsection \<open>Overall accuracy\<close>



subsection \<open>Per-label accuracy\<close>

text \<open>
  A pandas Series is an association list from index value to value, in the Series' order.
  A missing value (\<^verbatim>\<open>NaN\<close>) is \<open>None\<close>.
\<close>

type_synonym ('k, 'v) series = "('k \<times> 'v) list"

text \<open>The distinct values of a column, in order of first appearance.\<close>

definition unique :: "'a list \<Rightarrow> 'a list" where
  "unique xs = rev (remdups (rev xs))"

text \<open>
  \<^verbatim>\<open>Series.value_counts()\<close>: one entry per value present, most frequent first (a stable
  sort of the values in order of first appearance).
\<close>

definition value_counts :: "'a list \<Rightarrow> ('a, nat) series" where
  "value_counts col =
     sort_key (\<lambda>(v, c). - int c) (map (\<lambda>v. (v, count_list col v)) (unique col))"

text \<open>
  The columns of pandas hold doubles (IEEE 754 binary64), and every operation on them
  returns the double nearest to the exact result, a tie going to the one with an even last
  bit. \<open>rint x\<close> is the integer nearest to \<open>x\<close>, a tie going to the even one;
  \<open>exponent x\<close> is the integer \<open>e\<close> with \<open>2^e \<le> x < 2^(e + 1)\<close>, for \<open>x > 0\<close>;
  \<open>float64 x\<close> is the double nearest to \<open>x\<close>: \<open>x\<close> rounded to a multiple of
  \<open>2^(e - 52)\<close>. Overflow and subnormal numbers are left out: the numbers of the scorer
  are quotients of row counts, at most \<open>10^4\<close> times larger.
\<close>

definition rint :: "rat \<Rightarrow> int" where
  "rint x =
     (let f = \<lfloor>x\<rfloor>; d = x - of_int f
      in if d < 1 / 2 then f else if 1 / 2 < d then f + 1 else if even f then f else f + 1)"

definition pow2 :: "int \<Rightarrow> rat" where
  "pow2 e = (if 0 \<le> e then 2 ^ nat e else 1 / 2 ^ nat (- e))"

definition exponent :: "rat \<Rightarrow> int" where
  "exponent x =
     (if 1 \<le> x then int (floorlog 2 (nat \<lfloor>x\<rfloor>)) - 1
      else let k = int (floorlog 2 (nat \<lfloor>1 / x\<rfloor>)) - 1
           in if x * pow2 k = 1 then - k else - k - 1)"

definition float64 :: "rat \<Rightarrow> rat" where
  "float64 x =
     (if x = 0 then 0
      else let ulp = pow2 (exponent \<bar>x\<bar> - 52) in of_int (rint (x / ulp)) * ulp)"

text \<open>
  \<^verbatim>\<open>Series.mean()\<close> of a boolean column: the number of \<^verbatim>\<open>True\<close> divided by the number
  of entries, as doubles; \<^verbatim>\<open>NaN\<close> for an empty column (pandas does not raise there).
\<close>

definition mean :: "bool list \<Rightarrow> rat option" where
  "mean flags =
     (if flags = [] then None
      else Some (float64 (of_nat (length (filter (\<lambda>b. b) flags)) / of_nat (length flags))))"

text \<open>
  \<^verbatim>\<open>results_df.groupby("label")["Correct"].mean()\<close>: one group per label value present in
  the frame, the groups sorted by key.
\<close>

definition groupby_label_Correct_mean :: "results_row list \<Rightarrow> (string, rat option) series" where
  "groupby_label_Correct_mean df =
     map (\<lambda>l. (l, mean (map Correct (filter (\<lambda>r. label r = l) df))))
         (sort (remdups (map label df)))"

text \<open>\<^verbatim>\<open>.mul(100)\<close>: the product as a double; \<^verbatim>\<open>NaN\<close> stays \<^verbatim>\<open>NaN\<close>.\<close>

definition mul :: "rat \<Rightarrow> ('k, rat option) series \<Rightarrow> ('k, rat option) series" where
  "mul c s = map (\<lambda>(k, v). (k, map_option (\<lambda>x. float64 (x * c)) v)) s"

text \<open>
  \<^verbatim>\<open>.round(2)\<close>: numpy rounds \<open>x\<close> to \<open>d\<close> decimals as \<open>rint (x * 10^d) / 10^d\<close>, the
  product and the quotient being doubles.
\<close>

definition round_decimals :: "nat \<Rightarrow> rat \<Rightarrow> rat" where
  "round_decimals d x = float64 (of_int (rint (float64 (x * 10 ^ d))) / 10 ^ d)"

definition round_series :: "nat \<Rightarrow> ('k, rat option) series \<Rightarrow> ('k, rat option) series" where
  "round_series d s = map (\<lambda>(k, v). (k, map_option (round_decimals d) v)) s"

text \<open>
  \<^verbatim>\<open>pd.concat([s1, s2], axis=1)\<close>: an outer join on the index. The index of the result is
  the index of \<open>s1\<close> followed by the entries of \<open>s2\<close>'s index that \<open>s1\<close> lacks; a cell
  whose Series has no entry for the row is \<^verbatim>\<open>NaN\<close>. \<^verbatim>\<open>reset_index()\<close> turns the index
  into the first column, and the three columns are named \<^verbatim>\<open>Label\<close>, \<^verbatim>\<open>Count\<close>,
  \<^verbatim>\<open>Accuracy\<close>.
\<close>

record accuracy_row =
  Label :: string
  Count :: "nat option"
  Accuracy :: "rat option"

definition concat_axis1 ::
  "(string, nat) series \<Rightarrow> (string, rat option) series \<Rightarrow> accuracy_row list" where
  "concat_axis1 s1 s2 =
     map (\<lambda>k. \<lparr>Label = k, Count = map_of s1 k, Accuracy = Option.bind (map_of s2 k) (\<lambda>v. v)\<rparr>)
         (map fst s1 @ filter (\<lambda>k. k \<notin> set (map fst s1)) (map fst s2))"

text \<open>
  \<^verbatim>\<open>accuracy_df = pd.concat([results_df["label"].value_counts(),
      results_df.groupby("label")["Correct"].mean().mul(100).round(2)], axis=1)\<close>
\<close>

definition accuracy_df :: "results_row list \<Rightarrow> accuracy_row list" where
  "accuracy_df df =
     concat_axis1 (value_counts (map label df))
                  (round_series 2 (mul 100 (groupby_label_Correct_mean df)))"

text \<open>The cell of column \<^verbatim>\<open>Accuracy\<close> in the row of a label, if the table has such a row.\<close>

definition Accuracy_of :: "accuracy_row list \<Rightarrow> string \<Rightarrow> rat option option" where
  "Accuracy_of tbl l = map_option Accuracy (find (\<lambda>r. Label r = l) tbl)"

text \<open>
  The example of the specification, pairs \<open>(pos,pos), (neg,pos), (neg,neg)\<close>, read as
  (true label, predicted label) and as (predicted label, true label).
\<close>

definition example_true_pred :: "joined_row list" where
  "example_true_pred =
     [\<lparr>review_text = ''a'', label = ''pos'', pred = ''pos'', score = 1\<rparr>,
      \<lparr>review_text = ''b'', label = ''neg'', pred = ''pos'', score = 1\<rparr>,
      \<lparr>review_text = ''c'', label = ''neg'', pred = ''neg'', score = 1\<rparr>]"

definition example_pred_true :: "joined_row list" where
  "example_pred_true =
     [\<lparr>review_text = ''a'', label = ''pos'', pred = ''pos'', score = 1\<rparr>,
      \<lparr>review_text = ''b'', label = ''pos'', pred = ''neg'', score = 1\<rparr>,
      \<lparr>review_text = ''c'', label = ''neg'', pred = ''neg'', score = 1\<rparr>]"

text \<open>
  Two slices in which the mean is not a double: one row right of three, and 23 rows right
  of 160.
\<close>

definition one_of_three :: "joined_row list" where
  "one_of_three =
     [\<lparr>review_text = ''a'', label = ''neg'', pred = ''neg'', score = 1\<rparr>,
      \<lparr>review_text = ''b'', label = ''neg'', pred = ''pos'', score = 1\<rparr>,
      \<lparr>review_text = ''c'', label = ''neg'', pred = ''pos'', score = 1\<rparr>]"

definition right_23_of_160 :: "joined_row list" where
  "right_23_of_160 =
     replicate 23 \<lparr>review_text = ''a'', label = ''neg'', pred = ''neg'', score = 1\<rparr>
     @ replicate 137 \<lparr>review_text = ''b'', label = ''neg'', pred = ''pos'', score = 1\<rparr>"

text \<open>A slice in which every true label is "neg".\<close>

definition only_neg_slice :: "joined_row list" where
  "only_neg_slice =
     [\<lparr>review_text = ''a'', label = ''neg'', pred = ''neg'', score = 1\<rparr>,
      \<lparr>review_text = ''b'', label = ''neg'', pred = ''pos'', score = 1\<rparr>]"

section \<open>Environment check\<close>

text \<open>
  \<^verbatim>\<open>
  if torch.cuda.is_available():
      print("GPU acceleration is available!")
  else:
      print("GPU acceleration is NOT available! Training, fine-tuning, and inference speed will be adversely impacted.")
  \<close>
  The answer of \<^verbatim>\<open>torch.cuda.is_available()\<close> is a parameter. The state is the text
  printed so far, one entry per \<^verbatim>\<open>print\<close>; \<open>Inr\<close> is normal completion, after which
  the next statement of the notebook runs.
\<close>

definition environment_check :: "bool \<Rightarrow> string list \<Rightarrow> error + string list" where
  "environment_check cuda_is_available printed =
     (if cuda_is_available then Inr (printed @ [''GPU acceleration is available!''])
      else Inr (printed @
        [''GPU acceleration is NOT available! Training, fine-tuning, and inference speed will be adversely impacted.'']))"

section \<open>Dataset split\<close>

text \<open>
  A row of a dataset is a dictionary from column name to cell; a dataset is the list of its
  rows; a \<^verbatim>\<open>DatasetDict\<close> is a dictionary from partition name to dataset.
\<close>

datatype cell = Text string | ClassLabel nat | Ids "nat list"

type_synonym example = "string \<rightharpoonup> cell"
type_synonym dataset = "example list"
type_synonym dataset_dict = "string \<rightharpoonup> dataset"

text \<open>
  \<^verbatim>\<open>Dataset.select(indices)\<close>: the rows at the given positions, in the given order; a
  position outside the dataset is an \<^verbatim>\<open>IndexError\<close>.
\<close>

definition select :: "nat list \<Rightarrow> dataset \<Rightarrow> error + dataset" where
  "select indices rows =
     (if list_all (\<lambda>i. i < length rows) indices then Inr (map (\<lambda>i. rows ! i) indices)
      else Inl IndexError)"

text \<open>
  Modelled from the spec: the library routine \<^verbatim>\<open>Dataset.train_test_split\<close> is not in the
  sources. The specification describes it as a "stratified random split of the train
  partition into (new-train, validation) using a fixed proportion and a fixed random seed so
  the split is reproducible across runs".

  The random draw is a parameter: \<open>shuffle g col\<close> is the order in which a generator
  seeded with \<open>g\<close> draws the row positions of a dataset whose stratification column is
  \<open>col\<close>. The first \<open>n_test\<close> positions drawn are the part named \<^verbatim>\<open>test\<close>, the others
  the part named \<^verbatim>\<open>train\<close>, with \<open>n_test\<close> the proportion \<open>test_size\<close> of the rows,
  rounded up. A call without a seed seeds the generator from \<open>entropy\<close>, which stands
  for whatever differs between two runs of the notebook.
\<close>

definition split_indices ::
  "(nat \<Rightarrow> cell option list \<Rightarrow> nat list) \<Rightarrow> nat \<Rightarrow> rat \<Rightarrow> nat option \<Rightarrow> cell option list
     \<Rightarrow> nat list \<times> nat list" where
  "split_indices shuffle entropy test_size seed col =
     (let n_test = nat \<lceil>test_size * of_nat (length col)\<rceil>;
          g = (case seed of Some s \<Rightarrow> s | None \<Rightarrow> entropy);
          order = shuffle g col
      in (drop n_test order, take n_test order))"

definition train_test_split ::
  "(nat \<Rightarrow> cell option list \<Rightarrow> nat list) \<Rightarrow> nat \<Rightarrow> rat \<Rightarrow> nat option \<Rightarrow> string \<Rightarrow> dataset
     \<Rightarrow> error + dataset_dict" where
  "train_test_split shuffle entropy test_size seed stratify_by_column rows =
     (case split_indices shuffle entropy test_size seed (map (\<lambda>r. r stratify_by_column) rows) of
        (train_indices, test_indices) \<Rightarrow>
          (case select train_indices rows of
             Inl e \<Rightarrow> Inl e
           | Inr tr \<Rightarrow>
               (case select test_indices rows of
                  Inl e \<Rightarrow> Inl e
                | Inr te \<Rightarrow> Inr [''train'' \<mapsto> tr, ''test'' \<mapsto> te])))"

text \<open>Python's \<^verbatim>\<open>d[k]\<close>: a missing key is a \<^verbatim>\<open>KeyError\<close>.\<close>

definition getitem :: "(string \<rightharpoonup> 'v) \<Rightarrow> string \<Rightarrow> error + 'v" where
  "getitem d k = (case d k of None \<Rightarrow> Inl (KeyError k) | Some v \<Rightarrow> Inr v)"

text \<open>
  \<^verbatim>\<open>
  ds_train_val = ds["train"].train_test_split(test_size=0.1, seed=42, stratify_by_column="label")
  ds["train"] = ds_train_val["train"]
  ds["validation"] = ds_train_val["test"]
  \<close>
  The proportion \<^verbatim>\<open>0.1\<close> is kept exact, \<open>1 / 10\<close>.
\<close>

definition split_train_validation ::
  "(nat \<Rightarrow> cell option list \<Rightarrow> nat list) \<Rightarrow> nat \<Rightarrow> dataset_dict \<Rightarrow> error + dataset_dict" where
  "split_train_validation shuffle entropy ds =
     (case getitem ds ''train'' of
        Inl e \<Rightarrow> Inl e
      | Inr train \<Rightarrow>
          (case train_test_split shuffle entropy (1 / 10) (Some 42) ''label'' train of
             Inl e \<Rightarrow> Inl e
           | Inr ds_train_val \<Rightarrow>
               (case getitem ds_train_val ''train'' of
                  Inl e \<Rightarrow> Inl e
                | Inr new_train \<Rightarrow>
                    (case getitem ds_train_val ''test'' of
                       Inl e \<Rightarrow> Inl e
                     | Inr validation \<Rightarrow>
                         Inr (ds(''train'' \<mapsto> new_train, ''validation'' \<mapsto> validation))))))"

text \<open>Two small dataset dictionaries.\<close>

definition small_train :: dataset where
  "small_train =
     [[''text'' \<mapsto> Text ''a'', ''label'' \<mapsto> ClassLabel 0],
      [''text'' \<mapsto> Text ''b'', ''label'' \<mapsto> ClassLabel 1],
      [''text'' \<mapsto> Text ''c'', ''label'' \<mapsto> ClassLabel 1]]"

definition small_dataset :: dataset_dict where
  "small_dataset =
     [''train'' \<mapsto> small_train,
      ''test'' \<mapsto> [[''text'' \<mapsto> Text ''d'', ''label'' \<mapsto> ClassLabel 0]]]"

definition thousand_rows :: dataset_dict where
  "thousand_rows =
     [''train'' \<mapsto> replicate 1000 [''text'' \<mapsto> Text ''a'', ''label'' \<mapsto> ClassLabel 1],
      ''test'' \<mapsto> []]"

section \<open>Tokenization\<close>

text \<open>
  The tokenizer is a callable: text and keyword arguments in, a \<^verbatim>\<open>BatchEncoding\<close> out. For
  DistilBERT the encoding has the fields \<^verbatim>\<open>input_ids\<close> and \<^verbatim>\<open>attention_mask\<close>. The
  argument \<^verbatim>\<open>padding\<close> is \<^verbatim>\<open>False\<close> (\<open>DO_NOT_PAD\<close>), \<^verbatim>\<open>True\<close> (\<open>LONGEST\<close>) or
  \<^verbatim>\<open>"max_length"\<close> (\<open>MAX_LENGTH\<close>).
\<close>

datatype padding_strategy = DO_NOT_PAD | LONGEST | MAX_LENGTH

record tokenizer_kwargs =
  truncation :: bool
  padding :: padding_strategy
  max_length :: nat

record batch_encoding =
  input_ids :: "nat list"
  attention_mask :: "nat list"

type_synonym tokenizer = "string \<Rightarrow> tokenizer_kwargs \<Rightarrow> batch_encoding"

text \<open>
  \<^verbatim>\<open>
  def preprocess_function(tokenizer, examples):
      return tokenizer(examples["text"], truncation=True, padding=False, max_length=512)
  \<close>
  A row without a \<^verbatim>\<open>text\<close> column is a \<^verbatim>\<open>KeyError\<close>; the tokenizer refuses a cell that is
  not text with a \<^verbatim>\<open>ValueError\<close>.
\<close>

definition preprocess_function :: "tokenizer \<Rightarrow> example \<Rightarrow> error + batch_encoding" where
  "preprocess_function tokenizer examples =
     (case getitem examples ''text'' of
        Inl e \<Rightarrow> Inl e
      | Inr (Text t) \<Rightarrow>
          Inr (tokenizer t \<lparr>truncation = True, padding = DO_NOT_PAD, max_length = 512\<rparr>)
      | Inr _ \<Rightarrow> Inl ValueError)"

text \<open>
  \<^verbatim>\<open>ds = ds.map(partial(preprocess_function, tokenizer))\<close> calls the function on every row
  of every partition and updates the row with the fields of the returned encoding.
\<close>

definition map_example :: "(example \<Rightarrow> error + batch_encoding) \<Rightarrow> example \<Rightarrow> error + example" where
  "map_example f row =
     (case f row of
        Inl e \<Rightarrow> Inl e
      | Inr enc \<Rightarrow>
          Inr (row(''input_ids'' \<mapsto> Ids (input_ids enc),
                   ''attention_mask'' \<mapsto> Ids (attention_mask enc))))"

fun map_dataset :: "(example \<Rightarrow> error + batch_encoding) \<Rightarrow> dataset \<Rightarrow> error + dataset" where
  "map_dataset f [] = Inr []"
| "map_dataset f (row # rows) =
     (case map_example f row of
        Inl e \<Rightarrow> Inl e
      | Inr row' \<Rightarrow> (case map_dataset f rows of Inl e \<Rightarrow> Inl e | Inr rows' \<Rightarrow> Inr (row' # rows')))"

text \<open>
  Modelled from the spec: the tokenizer \<^verbatim>\<open>DistilBertTokenizer\<close> is not in the sources. The
  specification describes its call as a "deterministic truncation of the text to a fixed
  maximum token length (512), no padding applied at this stage", giving "model-specific
  integer input fields derived deterministically from text".

  The vocabulary lookup is a parameter: \<open>wordpiece t\<close> is the sequence of token ids of the
  text \<open>t\<close>. An encoding is the start token, the token ids and the end token; truncation
  drops token ids from the end until the encoding has at most \<open>max_length\<close> entries.
  \<open>MAX_LENGTH\<close> fills the encoding up to \<open>max_length\<close> with the padding token, masked
  out in \<^verbatim>\<open>attention_mask\<close>; \<open>LONGEST\<close> fills up to the longest text of the call, which
  for one text adds nothing.
\<close>

record special_tokens =
  cls_token_id :: nat
  sep_token_id :: nat
  pad_token_id :: nat

definition DistilBertTokenizer :: "(string \<Rightarrow> nat list) \<Rightarrow> special_tokens \<Rightarrow> tokenizer" where
  "DistilBertTokenizer wordpiece sp t kw =
     (let pieces = wordpiece t;
          kept = (if truncation kw then take (max_length kw - 2) pieces else pieces);
          ids = cls_token_id sp # kept @ [sep_token_id sp];
          n_pad = (case padding kw of
                     DO_NOT_PAD \<Rightarrow> 0
                   | LONGEST \<Rightarrow> 0
                   | MAX_LENGTH \<Rightarrow> max_length kw - length ids)
      in \<lparr>input_ids = ids @ replicate n_pad (pad_token_id sp),
          attention_mask = replicate (length ids) 1 @ replicate n_pad 0\<rparr>)"

section \<open>Fine-tuning configuration\<close>

text \<open>
  \<^verbatim>\<open>metric_choice = "f1"\<close>, and \<^verbatim>\<open>compute_metrics\<close> is the call
  \<^verbatim>\<open>METRIC.compute(predictions=..., references=labels, average="weighted")\<close> of the metric
  loaded under that name: it is kept as the metric's name and its averaging mode.
\<close>

definition metric_choice :: string where
  "metric_choice = ''f1''"

record metric_call =
  metric :: string
  average :: string

definition compute_metrics :: metric_call where
  "compute_metrics = \<lparr>metric = metric_choice, average = ''weighted''\<rparr>"

text \<open>The keyword arguments the notebook gives to \<^verbatim>\<open>TrainingArguments\<close>.\<close>

record training_arguments =
  output_dir :: string
  evaluation_strategy :: string
  learning_rate :: rat
  per_device_train_batch_size :: nat
  per_device_eval_batch_size :: nat
  num_train_epochs :: nat
  weight_decay :: rat
  metric_for_best_model :: string
  save_total_limit :: nat
  save_strategy :: string
  load_best_model_at_end :: bool
  optim :: string

definition args :: training_arguments where
  "args =
     \<lparr>output_dir = ''temp/'',
      evaluation_strategy = ''steps'',
      learning_rate = 1 / 100000,
      per_device_train_batch_size = 32,
      per_device_eval_batch_size = 32,
      num_train_epochs = 1,
      weight_decay = 1 / 100,
      metric_for_best_model = metric_choice,
      save_total_limit = 2,
      save_strategy = ''steps'',
      load_best_model_at_end = True,
      optim = ''adamw_torch''\<rparr>"

text \<open>
  \<^verbatim>\<open>Trainer(model=..., tokenizer=..., args=args, train_dataset=ds["train"],
      eval_dataset=ds["validation"], compute_metrics=compute_metrics)\<close>. The datasets are
  kept as the names of their partitions. \<^verbatim>\<open>Trainer\<close> takes its callbacks through the
  keyword \<^verbatim>\<open>callbacks\<close>, which the notebook does not pass; \<^verbatim>\<open>EarlyStoppingCallback\<close>
  (with its patience) is imported by the notebook and used nowhere.
\<close>

datatype callback = EarlyStoppingCallback nat | OtherCallback string

record trainer_config =
  trainer_args :: training_arguments
  train_dataset :: string
  eval_dataset :: string
  trainer_compute_metrics :: metric_call
  callbacks :: "callback list"

definition Trainer ::
  "training_arguments \<Rightarrow> string \<Rightarrow> string \<Rightarrow> metric_call \<Rightarrow> callback list option \<Rightarrow> trainer_config" where
  "Trainer a train eval cm cbs =
     \<lparr>trainer_args = a, train_dataset = train, eval_dataset = eval,
      trainer_compute_metrics = cm,
      callbacks = (case cbs of None \<Rightarrow> [] | Some l \<Rightarrow> l)\<rparr>"

definition trainer :: trainer_config where
  "trainer = Trainer args ''train'' ''validation'' compute_metrics None"

fun is_early_stopping :: "callback \<Rightarrow> bool" where
  "is_early_stopping (EarlyStoppingCallback patience) = True"
| "is_early_stopping (OtherCallback name) = False"

definition early_stopping_policy :: "trainer_config \<Rightarrow> bool" where
  "early_stopping_policy t = list_ex is_early_stopping (callbacks t)"

section \<open>Properties of the scorer\<close>

subsection \<open>Overall accuracy\<close>

lemma Correct_add_Correct: "Correct (add_Correct r) = (pred r = label r)"
  by (auto simp: add_Correct_def)

lemma label_add_Correct: "label (add_Correct r) = label r"
  by (simp add: add_Correct_def)





subsection \<open>The Series behind the per-label table\<close>

lemma set_unique: "set (unique xs) = set xs"
  by (simp add: unique_def)

lemma distinct_unique: "distinct (unique xs)"
  by (simp add: unique_def)

lemma keys_value_counts: "set (map fst (value_counts col)) = set col"
proof -
  have "set (map fst (value_counts col))
          = fst ` set (map (\<lambda>v. (v, count_list col v)) (unique col))"
    by (simp add: value_counts_def)
  also have "\<dots> = set col"
    by (simp add: image_image set_unique)
  finally show ?thesis .
qed

lemma distinct_keys_value_counts: "distinct (map fst (value_counts col))"
proof -
  have "mset (map fst (value_counts col))
          = mset (map fst (map (\<lambda>v. (v, count_list col v)) (unique col)))"
    unfolding value_counts_def by (simp only: mset_map mset_sort)
  also have "\<dots> = mset (unique col)"
    by (simp add: comp_def)
  finally have "distinct (map fst (value_counts col)) = distinct (unique col)"
    by (rule mset_eq_imp_distinct_iff)
  then show ?thesis
    by (simp add: distinct_unique)
qed

lemma map_of_value_counts:
  assumes "v \<in> set col"
  shows "map_of (value_counts col) v = Some (count_list col v)"
proof -
  have "(v, count_list col v) \<in> set (value_counts col)"
    using assms by (auto simp: value_counts_def set_unique)
  then show ?thesis
    using distinct_keys_value_counts [of col] by simp
qed

lemma count_list_label: "count_list (map label df) l = length (filter (\<lambda>r. label r = l) df)"
  by (induction df) auto

lemma map_of_groupby:
  assumes "l \<in> label ` set df"
  shows "map_of (groupby_label_Correct_mean df) l
           = Some (mean (map Correct (filter (\<lambda>r. label r = l) df)))"
proof -
  have "l \<in> set (sort (remdups (map label df)))"
    using assms by simp
  then show ?thesis
    unfolding groupby_label_Correct_mean_def
    by (simp add: map_of_map_restrict)
qed

lemma keys_groupby: "set (map fst (groupby_label_Correct_mean df)) = label ` set df"
  by (simp add: groupby_label_Correct_mean_def comp_def)

lemma map_of_mul:
  "map_of (mul c s) k = map_option (map_option (\<lambda>x. float64 (x * c))) (map_of s k)"
  by (induction s) (auto simp: mul_def)

lemma map_of_round_series:
  "map_of (round_series d s) k = map_option (map_option (round_decimals d)) (map_of s k)"
  by (induction s) (auto simp: round_series_def)

lemma keys_mul: "map fst (mul c s) = map fst s"
  by (induction s) (auto simp: mul_def)

lemma keys_round_series: "map fst (round_series d s) = map fst s"
  by (induction s) (auto simp: round_series_def)

text \<open>A group is never empty, so its mean is a number.\<close>

lemma mean_group:
  assumes "l \<in> label ` set df"
  shows "mean (map Correct (filter (\<lambda>r. label r = l) df))
           = Some (float64 (of_nat (length (filter (\<lambda>r. label r = l \<and> Correct r) df))
                            / of_nat (length (filter (\<lambda>r. label r = l) df))))"
proof -
  have ne: "filter (\<lambda>r. label r = l) df \<noteq> []"
    using assms by (auto simp: filter_empty_conv)
  have "length (filter (\<lambda>b. b) (map Correct (filter (\<lambda>r. label r = l) df)))
          = length (filter (\<lambda>r. label r = l \<and> Correct r) df)"
    by (simp add: filter_map comp_def conj_commute)
  with ne show ?thesis
    by (simp add: mean_def)
qed

subsection \<open>The rows of the per-label table\<close>

text \<open>Both Series have the same index, so the join adds no row to the first one's.\<close>

lemma Labels_accuracy_df: "map Label (accuracy_df df) = map fst (value_counts (map label df))"
proof -
  have "set (map fst (round_series 2 (mul 100 (groupby_label_Correct_mean df))))
          \<subseteq> set (map fst (value_counts (map label df)))"
    by (simp only: keys_round_series keys_mul keys_groupby keys_value_counts) simp
  then have "filter (\<lambda>k. k \<notin> set (map fst (value_counts (map label df))))
               (map fst (round_series 2 (mul 100 (groupby_label_Correct_mean df)))) = []"
    by (auto simp: filter_empty_conv)
  then show ?thesis
    by (simp add: accuracy_df_def concat_axis1_def comp_def)
qed

lemma find_map_key:
  assumes "k \<in> set ks" and "\<And>j. Label (f j) = j"
  shows "find (\<lambda>r. Label r = k) (map f ks) = Some (f k)"
  using assms by (induction ks) auto

lemma accuracy_df_row:
  assumes "l \<in> label ` set df"
  shows "find (\<lambda>r. Label r = l) (accuracy_df df) =
     Some \<lparr>Label = l, Count = Some (length (filter (\<lambda>r. label r = l) df)),
           Accuracy = Some (round_decimals 2 (float64 (float64
             (of_nat (length (filter (\<lambda>r. label r = l \<and> Correct r) df))
                 / of_nat (length (filter (\<lambda>r. label r = l) df))) * 100)))\<rparr>"
proof -
  let ?s1 = "value_counts (map label df)"
  let ?s2 = "round_series 2 (mul 100 (groupby_label_Correct_mean df))"
  have in_col: "l \<in> set (map label df)"
    using assms by simp
  have idx: "map fst ?s1 @ filter (\<lambda>k. k \<notin> set (map fst ?s1)) (map fst ?s2) = map fst ?s1"
    using Labels_accuracy_df [of df] by (simp add: accuracy_df_def concat_axis1_def comp_def)
  have k: "l \<in> set (map fst ?s1)"
    using in_col by (simp only: keys_value_counts)
  have c: "map_of ?s1 l = Some (length (filter (\<lambda>r. label r = l) df))"
    using map_of_value_counts [OF in_col] by (simp only: count_list_label)
  have a: "map_of ?s2 l = Some (Some (round_decimals 2 (float64 (float64
             (of_nat (length (filter (\<lambda>r. label r = l \<and> Correct r) df))
                 / of_nat (length (filter (\<lambda>r. label r = l) df))) * 100))))"
    by (simp add: map_of_round_series map_of_mul map_of_groupby [OF assms] mean_group [OF assms])
  have "find (\<lambda>r. Label r = l) (accuracy_df df) =
     Some \<lparr>Label = l, Count = map_of ?s1 l, Accuracy = Option.bind (map_of ?s2 l) (\<lambda>v. v)\<rparr>"
    unfolding accuracy_df_def concat_axis1_def idx
    by (rule find_map_key [OF k]) simp
  then show ?thesis
    by (simp add: c a)
qed

lemma find_own_row:
  assumes "r \<in> set tbl" and "distinct (map Label tbl)"
  shows "find (\<lambda>x. Label x = Label r) tbl = Some r"
  using assms by (induction tbl) (auto simp: image_iff)

lemma filter_results_df_label:
  "length (filter (\<lambda>r. label r = l) (results_df joined)) = length (filter (\<lambda>r. label r = l) joined)"
  by (simp add: results_df_def filter_map comp_def label_add_Correct)

lemma filter_results_df_label_Correct:
  "length (filter (\<lambda>r. label r = l \<and> Correct r) (results_df joined))
     = length (filter (\<lambda>r. label r = l \<and> pred r = label r) joined)"
  by (simp add: results_df_def filter_map comp_def label_add_Correct Correct_add_Correct)

lemma labels_results_df: "label ` set (results_df joined) = label ` set joined"
  by (simp add: results_df_def image_image label_add_Correct)

subsection \<open>Double arithmetic on numerals\<close>

lemma floor_quotient: "\<lfloor>(numeral a :: rat) / numeral b\<rfloor> = numeral a div numeral b"
  using floor_divide_of_int_eq [of "numeral a" "numeral b", where ?'a = rat] by simp

lemmas float64_eval =
  float64_def exponent_def pow2_def rint_def Let_def floor_quotient compute_floorlog

text \<open>
  The percentage of one half, of one, of one third (the double nearest to 33.33) and of
  23 / 160 (the double nearest to 14.37, since the product of the mean and 100 is a double
  just below 14.375).
\<close>

lemma percentage_half:
  "float64 (of_int (rint (float64 (float64 (float64 (1 / 2) * 100) * 100))) / 100) = 50"
  by (simp add: float64_eval)

lemma percentage_one:
  "float64 (of_int (rint (float64 (float64 (float64 1 * 100) * 100))) / 100) = 100"
  by (simp add: float64_eval)

lemma percentage_one_of_three:
  "float64 (of_int (rint (float64 (float64 (float64 (1 / 3) * 100) * 100))) / 100)
     = 2345390243441541 / 70368744177664"
  by (simp add: float64_eval)

lemma product_23_of_160:
  "float64 (float64 (23 / 160) * 100) = 8092405580431359 / 562949953421312"
  by (simp add: float64_eval)

lemma percentage_23_of_160:
  "float64 (of_int (rint (float64 (float64 (float64 (23 / 160) * 100) * 100))) / 100)
     = 8089590830664253 / 562949953421312"
  by (simp add: float64_eval)

lemma doubles_nearest_to_decimals:
  "float64 (1437 / 100) = 8089590830664253 / 562949953421312
   \<and> float64 (1438 / 100) = 8095220330198467 / 562949953421312
   \<and> float64 (3333 / 100) = 2345390243441541 / 70368744177664"
  by (simp add: float64_eval)

text \<open>The double written \<^verbatim>\<open>0.1\<close>, and numbers that are doubles already.\<close>

lemma float64_one_tenth: "float64 (1 / 10) = 3602879701896397 / 36028797018963968"
  by (simp add: float64_eval)

lemma float64_exact: "float64 (1 / 2) = 1 / 2" "float64 100 = 100" "float64 (- 3 / 8) = - 3 / 8"
  by (simp_all add: float64_eval)

subsection \<open>Per-label accuracy\<close>

lemma Accuracy_of_present_label:
  assumes "l \<in> label ` set joined"
  shows "Accuracy_of (accuracy_df (results_df joined)) l =
        Some (Some (float64 (of_int (rint (float64 (float64 (float64
          (of_nat (length (filter (\<lambda>r. label r = l \<and> pred r = label r) joined))
             / of_nat (length (filter (\<lambda>r. label r = l) joined))) * 100) * 100))) / 100)))"
proof -
  have "l \<in> label ` set (results_df joined)"
    using assms by (simp only: labels_results_df)
  from accuracy_df_row [OF this] show ?thesis
    by (simp add: Accuracy_of_def round_decimals_def
          filter_results_df_label filter_results_df_label_Correct)
qed

lemma cells_example_true_pred:
  "Accuracy_of (accuracy_df (results_df example_true_pred)) ''neg'' = Some (Some 50)"
  "Accuracy_of (accuracy_df (results_df example_true_pred)) ''pos'' = Some (Some 100)"
  using Accuracy_of_present_label [of "''neg''" example_true_pred]
    Accuracy_of_present_label [of "''pos''" example_true_pred]
  by (simp_all add: example_true_pred_def percentage_half percentage_one)

lemma cells_example_pred_true:
  "Accuracy_of (accuracy_df (results_df example_pred_true)) ''neg'' = Some (Some 100)"
  "Accuracy_of (accuracy_df (results_df example_pred_true)) ''pos'' = Some (Some 50)"
  using Accuracy_of_present_label [of "''neg''" example_pred_true]
    Accuracy_of_present_label [of "''pos''" example_pred_true]
  by (simp_all add: example_pred_true_def percentage_half percentage_one)

lemma cell_one_of_three:
  "Accuracy_of (accuracy_df (results_df one_of_three)) ''neg''
     = Some (Some (2345390243441541 / 70368744177664))"
  using Accuracy_of_present_label [of "''neg''" one_of_three]
  by (simp add: one_of_three_def percentage_one_of_three)

lemma filter_replicate_rows:
  "filter P (replicate m x @ replicate n y)
     = (if P x then replicate m x else []) @ (if P y then replicate n y else [])"
  by (simp add: filter_replicate)

text \<open>
  C2, as amended. For every sequence of joined rows and every label that occurs among the
  true labels, the \<^verbatim>\<open>Accuracy\<close> cell of that label is the mean of the correctness flags of
  the rows with that true label, multiplied by 100 and rounded to two decimals, every
  step in double arithmetic: the quotient of the two counts, its product with 100, the
  product of that with 100, the nearest integer, and its quotient by 100. For the pairs
  (true, predicted) \<open>(pos,pos), (neg,pos), (neg,neg)\<close> it is 50 for "neg" and 100 for
  "pos"; for one row right of three it is the double nearest to 33.33.
\<close>

theorem per_label_accuracy_is_rounded_percentage:
  "(l \<in> label ` set joined \<longrightarrow>
      Accuracy_of (accuracy_df (results_df joined)) l =
        Some (Some (float64 (of_int (rint (float64 (float64 (float64
          (of_nat (length (filter (\<lambda>r. label r = l \<and> pred r = label r) joined))
             / of_nat (length (filter (\<lambda>r. label r = l) joined))) * 100) * 100))) / 100))))
   \<and> Accuracy_of (accuracy_df (results_df example_true_pred)) ''neg'' = Some (Some 50)
   \<and> Accuracy_of (accuracy_df (results_df example_true_pred)) ''pos'' = Some (Some 100)
   \<and> Accuracy_of (accuracy_df (results_df one_of_three)) ''neg''
       = Some (Some (2345390243441541 / 70368744177664))
   \<and> float64 (3333 / 100) = 2345390243441541 / 70368744177664"
proof (intro conjI impI)
  assume "l \<in> label ` set joined"
  then show "Accuracy_of (accuracy_df (results_df joined)) l =
        Some (Some (float64 (of_int (rint (float64 (float64 (float64
          (of_nat (length (filter (\<lambda>r. label r = l \<and> pred r = label r) joined))
             / of_nat (length (filter (\<lambda>r. label r = l) joined))) * 100) * 100))) / 100)))"
    by (rule Accuracy_of_present_label)
next
  show "Accuracy_of (accuracy_df (results_df example_true_pred)) ''neg'' = Some (Some 50)"
    by (rule cells_example_true_pred)
next
  show "Accuracy_of (accuracy_df (results_df example_true_pred)) ''pos'' = Some (Some 100)"
    by (rule cells_example_true_pred)
next
  show "Accuracy_of (accuracy_df (results_df one_of_three)) ''neg''
          = Some (Some (2345390243441541 / 70368744177664))"
    by (rule cell_one_of_three)
next
  show "float64 (3333 / 100) = 2345390243441541 / 70368744177664"
    by (simp add: doubles_nearest_to_decimals)
qed

text \<open>
  The general part at 23 rows right of 160: the cell is the double nearest to 14.37, not
  the one nearest to 14.38, which rounding the exact percentage 14.375 would give.
\<close>

theorem per_label_accuracy_is_rounded_percentage_witness:
  "''neg'' \<in> label ` set right_23_of_160
   \<and> Accuracy_of (accuracy_df (results_df right_23_of_160)) ''neg''
       = Some (Some (8089590830664253 / 562949953421312))
   \<and> float64 (1437 / 100) = 8089590830664253 / 562949953421312"
proof -
  have h: "''neg'' \<in> label ` set right_23_of_160"
    by (simp add: right_23_of_160_def)
  have right: "length (filter (\<lambda>r. label r = ''neg'' \<and> pred r = label r) right_23_of_160) = 23"
    by (simp add: right_23_of_160_def filter_replicate_rows)
  have rows: "length (filter (\<lambda>r. label r = ''neg'') right_23_of_160) = 160"
    by (simp add: right_23_of_160_def filter_replicate_rows)
  have quotient: "rat_of_nat 23 / rat_of_nat 160 = 23 / 160"
    by simp
  note general = per_label_accuracy_is_rounded_percentage
    [of "''neg''" right_23_of_160, THEN conjunct1, THEN mp, OF h]
  have cell: "Accuracy_of (accuracy_df (results_df right_23_of_160)) ''neg''
                = Some (Some (8089590830664253 / 562949953421312))"
    using general by (simp only: right rows quotient percentage_23_of_160)
  have nearest: "float64 (1437 / 100) = 8089590830664253 / 562949953421312"
    by (rule doubles_nearest_to_decimals [THEN conjunct1])
  from h cell nearest show ?thesis
    by (intro conjI)
qed

text \<open>
  The cell is not the mean itself: in the example the mean for "neg" is \<open>1 / 2\<close> (and under
  the other reading of the pairs, \<open>1\<close>), the cell is 50 (100).
\<close>

theorem per_label_accuracy_is_not_the_mean:
  "Accuracy_of (accuracy_df (results_df example_true_pred)) ''neg'' \<noteq> Some (Some (1 / 2))
   \<and> Accuracy_of (accuracy_df (results_df example_true_pred)) ''pos'' \<noteq> Some (Some 1)
   \<and> Accuracy_of (accuracy_df (results_df example_pred_true)) ''neg'' \<noteq> Some (Some (1 / 2))
   \<and> Accuracy_of (accuracy_df (results_df example_pred_true)) ''pos'' \<noteq> Some (Some 1)"
  by (simp add: cells_example_true_pred cells_example_pred_true)

subsection \<open>One row per label present\<close>

text \<open>
  C10. For every evaluated slice the per-label table has exactly one row per label value
  that occurs in the slice: the labels of its rows are pairwise different and are the
  labels of the slice, a label absent from the slice has no row, and in every row the
  count is the positive number of rows of the slice with that label and the accuracy is a
  number. No step of the computation can raise.
\<close>

theorem accuracy_df_one_row_per_present_label:
  "distinct (map Label (accuracy_df df))
   \<and> set (map Label (accuracy_df df)) = label ` set df
   \<and> (l \<notin> label ` set df \<longrightarrow> find (\<lambda>r. Label r = l) (accuracy_df df) = None)
   \<and> (\<forall>r \<in> set (accuracy_df df).
        Count r = Some (length (filter (\<lambda>x. label x = Label r) df))
        \<and> 0 < length (filter (\<lambda>x. label x = Label r) df)
        \<and> (\<exists>a. Accuracy r = Some a))"
proof -
  have d: "distinct (map Label (accuracy_df df))"
    by (simp only: Labels_accuracy_df distinct_keys_value_counts)
  have s: "set (map Label (accuracy_df df)) = label ` set df"
    by (simp only: Labels_accuracy_df keys_value_counts) simp
  have absent: "find (\<lambda>r. Label r = l) (accuracy_df df) = None" if "l \<notin> label ` set df"
  proof -
    have "l \<notin> Label ` set (accuracy_df df)"
      using that s by simp
    then show ?thesis
      by (auto simp: find_None_iff)
  qed
  have rows: "Count r = Some (length (filter (\<lambda>x. label x = Label r) df))
        \<and> 0 < length (filter (\<lambda>x. label x = Label r) df)
        \<and> (\<exists>a. Accuracy r = Some a)" if "r \<in> set (accuracy_df df)" for r
  proof -
    have "Label r \<in> set (map Label (accuracy_df df))"
      using that by simp
    then have present: "Label r \<in> label ` set df"
      by (simp only: s)
    have "find (\<lambda>x. Label x = Label r) (accuracy_df df) = Some r"
      using that d by (rule find_own_row)
    with accuracy_df_row [OF present] have
      "r = \<lparr>Label = Label r, Count = Some (length (filter (\<lambda>x. label x = Label r) df)),
           Accuracy = Some (round_decimals 2 (float64 (float64
             (of_nat (length (filter (\<lambda>x. label x = Label r \<and> Correct x) df))
                 / of_nat (length (filter (\<lambda>x. label x = Label r) df))) * 100)))\<rparr>"
      by simp
    then have "Count r = Some (length (filter (\<lambda>x. label x = Label r) df))"
      and "\<exists>a. Accuracy r = Some a"
      by (cases r, simp)+
    moreover have "0 < length (filter (\<lambda>x. label x = Label r) df)"
      using present by (auto simp: filter_empty_conv)
    ultimately show ?thesis
      by simp
  qed
  show ?thesis
  proof (intro conjI impI ballI)
    show "distinct (map Label (accuracy_df df))"
      by (rule d)
    show "set (map Label (accuracy_df df)) = label ` set df"
      by (rule s)
    show "find (\<lambda>r. Label r = l) (accuracy_df df) = None" if "l \<notin> label ` set df"
      using that by (rule absent)
    show "Count r = Some (length (filter (\<lambda>x. label x = Label r) df))"
      if "r \<in> set (accuracy_df df)" for r
      using rows [OF that] by simp
    show "0 < length (filter (\<lambda>x. label x = Label r) df)"
      if "r \<in> set (accuracy_df df)" for r
      using rows [OF that] by simp
    show "\<exists>a. Accuracy r = Some a" if "r \<in> set (accuracy_df df)" for r
      using rows [OF that] by simp
  qed
qed

text \<open>A slice with "neg" rows only: the table has the one row of "neg", none for "pos".\<close>

theorem accuracy_df_one_row_per_present_label_witness:
  "''pos'' \<notin> label ` set (results_df only_neg_slice)
   \<and> find (\<lambda>r. Label r = ''pos'') (accuracy_df (results_df only_neg_slice)) = None
   \<and> set (map Label (accuracy_df (results_df only_neg_slice))) = {''neg''}
   \<and> (\<exists>r \<in> set (accuracy_df (results_df only_neg_slice)). Count r = Some 2)"
proof -
  let ?df = "results_df only_neg_slice"
  have h: "''pos'' \<notin> label ` set ?df"
    by (simp add: only_neg_slice_def results_df_def add_Correct_def)
  have l: "label ` set ?df = {''neg''}"
    by (simp add: only_neg_slice_def results_df_def add_Correct_def)
  have f: "length (filter (\<lambda>x. label x = ''neg'') ?df) = 2"
    by (simp add: only_neg_slice_def results_df_def add_Correct_def)
  note table = accuracy_df_one_row_per_present_label [of ?df "''pos''"]
  have none: "find (\<lambda>r. Label r = ''pos'') (accuracy_df ?df) = None"
    by (rule table [THEN conjunct2, THEN conjunct2, THEN conjunct1, THEN mp, OF h])
  have labels: "set (map Label (accuracy_df ?df)) = {''neg''}"
    using table [THEN conjunct2, THEN conjunct1] unfolding l .
  then have "''neg'' \<in> Label ` set (accuracy_df ?df)"
    by simp
  then obtain r where r: "r \<in> set (accuracy_df ?df)" and neg: "Label r = ''neg''"
    by (auto simp: image_iff)
  have "Count r = Some (length (filter (\<lambda>x. label x = Label r) ?df))"
    by (rule table [THEN conjunct2, THEN conjunct2, THEN conjunct2, THEN bspec, OF r, THEN conjunct1])
  then have "Count r = Some 2"
    unfolding neg f .
  with r have "\<exists>r \<in> set (accuracy_df ?df). Count r = Some 2"
    by (rule bexI [rotated])
  with h none labels show ?thesis
    by (intro conjI)
qed

section \<open>Properties of the environment check\<close>

text \<open>
  C9. Without an accelerator the environment check prints the warning and completes
  normally; with one it prints the confirmation and completes normally. For either answer
  the step ends without an exception, so the statement after it runs.
\<close>

theorem environment_check_warns_and_continues:
  "environment_check False printed = Inr (printed @
      [''GPU acceleration is NOT available! Training, fine-tuning, and inference speed will be adversely impacted.''])
   \<and> environment_check True printed = Inr (printed @ [''GPU acceleration is available!''])
   \<and> (\<forall>available. \<exists>printed'. environment_check available printed = Inr printed')"
  by (simp add: environment_check_def)

section \<open>Properties of the dataset split\<close>

subsection \<open>A draw that is a permutation of the row positions\<close>

lemma permutation_set:
  assumes "mset order = mset [0..<n]"
  shows "set order = {0..<n}"
  using mset_eq_setD [OF assms] by simp

lemma permutation_distinct:
  assumes "mset order = mset [0..<n]"
  shows "distinct order"
  using mset_eq_imp_distinct_iff [OF assms] by simp

lemma permutation_length:
  assumes "mset order = mset [0..<n]"
  shows "length order = n"
  using mset_eq_length [OF assms] by simp

lemma select_in_range:
  assumes "set indices \<subseteq> {0..<length rows}"
  shows "select indices rows = Inr (map (\<lambda>i. rows ! i) indices)"
proof -
  have "list_all (\<lambda>i. i < length rows) indices"
    using assms by (auto simp: list_all_iff)
  then show ?thesis
    by (simp add: select_def)
qed

lemma rows_of_permutation:
  assumes "mset order = mset [0..<length rows]"
  shows "mset (map (\<lambda>i. rows ! i) order) = mset rows"
proof -
  have "mset (map (\<lambda>i. rows ! i) order) = image_mset (\<lambda>i. rows ! i) (mset order)"
    by simp
  also have "\<dots> = image_mset (\<lambda>i. rows ! i) (mset [0..<length rows])"
    by (simp only: assms)
  also have "\<dots> = mset (map (\<lambda>i. rows ! i) [0..<length rows])"
    by simp
  also have "\<dots> = mset rows"
    by (simp only: map_nth)
  finally show ?thesis .
qed

lemma tenth_le: "nat \<lceil>(1 / 10 :: rat) * of_nat n\<rceil> \<le> n"
proof -
  have "(1 / 10 :: rat) * of_nat n \<le> of_int (int n)"
    by simp
  then have "\<lceil>(1 / 10 :: rat) * of_nat n\<rceil> \<le> int n"
    by (simp only: ceiling_le_iff)
  then show ?thesis
    by simp
qed

subsection \<open>The result of the split step\<close>

lemma train_test_split_result:
  assumes "mset (shuffle s (map (\<lambda>r. r column) rows)) = mset [0..<length rows]"
  shows "train_test_split shuffle entropy p (Some s) column rows =
           Inr [''train'' \<mapsto> map (\<lambda>i. rows ! i)
                   (drop (nat \<lceil>p * of_nat (length rows)\<rceil>) (shuffle s (map (\<lambda>r. r column) rows))),
                ''test'' \<mapsto> map (\<lambda>i. rows ! i)
                   (take (nat \<lceil>p * of_nat (length rows)\<rceil>) (shuffle s (map (\<lambda>r. r column) rows)))]"
proof -
  let ?order = "shuffle s (map (\<lambda>r. r column) rows)"
  let ?k = "nat \<lceil>p * of_nat (length rows)\<rceil>"
  have all: "set ?order = {0..<length rows}"
    using assms by (rule permutation_set)
  have "set (drop ?k ?order) \<subseteq> {0..<length rows}"
    using set_drop_subset [of ?k ?order] all by simp
  then have tr: "select (drop ?k ?order) rows = Inr (map (\<lambda>i. rows ! i) (drop ?k ?order))"
    by (rule select_in_range)
  have "set (take ?k ?order) \<subseteq> {0..<length rows}"
    using set_take_subset [of ?k ?order] all by simp
  then have te: "select (take ?k ?order) rows = Inr (map (\<lambda>i. rows ! i) (take ?k ?order))"
    by (rule select_in_range)
  show ?thesis
    by (simp add: train_test_split_def split_indices_def Let_def tr te)
qed

lemma split_train_validation_result:
  assumes "ds ''train'' = Some tr"
    and "mset (shuffle 42 (map (\<lambda>r. r ''label'') tr)) = mset [0..<length tr]"
  shows "split_train_validation shuffle entropy ds =
           Inr (ds(''train'' \<mapsto> map (\<lambda>i. tr ! i)
                     (drop (nat \<lceil>(1 / 10 :: rat) * of_nat (length tr)\<rceil>)
                        (shuffle 42 (map (\<lambda>r. r ''label'') tr))),
                   ''validation'' \<mapsto> map (\<lambda>i. tr ! i)
                     (take (nat \<lceil>(1 / 10 :: rat) * of_nat (length tr)\<rceil>)
                        (shuffle 42 (map (\<lambda>r. r ''label'') tr)))))"
proof -
  note split = train_test_split_result
    [where shuffle = shuffle and s = 42 and column = "''label''" and rows = tr
       and entropy = entropy and p = "1 / 10", OF assms(2)]
  show ?thesis
    by (simp add: split_train_validation_def getitem_def assms(1) split)
qed

subsection \<open>Train, validation and test after the split\<close>

text \<open>
  C4. For every dataset with a train and a test partition, and a draw that is a
  permutation of the positions of the train rows: after the split step the test partition
  is the original one, and the new train and the validation partition are the original
  train rows at two sets of positions that are disjoint and together are all positions,
  each position taken once. So validation and new train together hold exactly the
  original train rows.
\<close>

theorem split_partitions_train_and_keeps_test:
  assumes "ds ''train'' = Some tr" and "ds ''test'' = Some te"
    and "mset (shuffle 42 (map (\<lambda>r. r ''label'') tr)) = mset [0..<length tr]"
  shows "\<exists>ds' train_positions validation_positions.
           split_train_validation shuffle entropy ds = Inr ds'
           \<and> ds' ''test'' = Some te
           \<and> ds' ''train'' = Some (map (\<lambda>i. tr ! i) train_positions)
           \<and> ds' ''validation'' = Some (map (\<lambda>i. tr ! i) validation_positions)
           \<and> set train_positions \<inter> set validation_positions = {}
           \<and> set train_positions \<union> set validation_positions = {0..<length tr}
           \<and> distinct train_positions \<and> distinct validation_positions
           \<and> mset (map (\<lambda>i. tr ! i) train_positions)
               + mset (map (\<lambda>i. tr ! i) validation_positions) = mset tr"
proof -
  let ?order = "shuffle 42 (map (\<lambda>r. r ''label'') tr)"
  let ?k = "nat \<lceil>(1 / 10 :: rat) * of_nat (length tr)\<rceil>"
  let ?ds' = "ds(''train'' \<mapsto> map (\<lambda>i. tr ! i) (drop ?k ?order),
                 ''validation'' \<mapsto> map (\<lambda>i. tr ! i) (take ?k ?order))"
  have step: "split_train_validation shuffle entropy ds = Inr ?ds'"
    using assms(1) assms(3) by (rule split_train_validation_result)
  have d: "distinct ?order"
    using assms(3) by (rule permutation_distinct)
  have whole: "take ?k ?order @ drop ?k ?order = ?order"
    by simp
  have disjoint: "set (drop ?k ?order) \<inter> set (take ?k ?order) = {}"
    using d set_take_disj_set_drop_if_distinct [of ?order ?k ?k] by auto
  have "set (drop ?k ?order) \<union> set (take ?k ?order) = set (take ?k ?order @ drop ?k ?order)"
    by (simp only: set_append Un_commute)
  then have cover: "set (drop ?k ?order) \<union> set (take ?k ?order) = {0..<length tr}"
    using permutation_set [OF assms(3)] by (simp only: whole)
  have "mset (map (\<lambda>i. tr ! i) (drop ?k ?order)) + mset (map (\<lambda>i. tr ! i) (take ?k ?order))
          = mset (map (\<lambda>i. tr ! i) (take ?k ?order @ drop ?k ?order))"
    by (simp only: map_append mset_append add.commute)
  then have rows: "mset (map (\<lambda>i. tr ! i) (drop ?k ?order))
                     + mset (map (\<lambda>i. tr ! i) (take ?k ?order)) = mset tr"
    using rows_of_permutation [OF assms(3)] by (simp only: whole)
  have test: "?ds' ''test'' = Some te"
    using assms(2) by simp
  have train: "?ds' ''train'' = Some (map (\<lambda>i. tr ! i) (drop ?k ?order))"
    by simp
  have validation: "?ds' ''validation'' = Some (map (\<lambda>i. tr ! i) (take ?k ?order))"
    by simp
  from step test train validation disjoint cover d rows show ?thesis
    by (intro exI [of _ ?ds'] exI [of _ "drop ?k ?order"] exI [of _ "take ?k ?order"])
       (simp only: distinct_drop distinct_take simp_thms)
qed

text \<open>
  Three train rows and one test row, the draw being the positions in reverse: the
  validation partition is the last train row.
\<close>

theorem split_partitions_train_and_keeps_test_witness:
  "\<exists>ds' train_positions validation_positions.
     split_train_validation (\<lambda>g col. rev [0..<length col]) 0 small_dataset = Inr ds'
     \<and> ds' ''test'' = Some [[''text'' \<mapsto> Text ''d'', ''label'' \<mapsto> ClassLabel 0]]
     \<and> ds' ''train'' = Some (map (\<lambda>i. small_train ! i) train_positions)
     \<and> ds' ''validation'' = Some (map (\<lambda>i. small_train ! i) validation_positions)
     \<and> set train_positions \<inter> set validation_positions = {}
     \<and> set train_positions \<union> set validation_positions = {0..<length small_train}
     \<and> distinct train_positions \<and> distinct validation_positions
     \<and> mset (map (\<lambda>i. small_train ! i) train_positions)
         + mset (map (\<lambda>i. small_train ! i) validation_positions) = mset small_train"
proof -
  have tr: "small_dataset ''train'' = Some small_train"
    by (simp add: small_dataset_def)
  have te: "small_dataset ''test'' = Some [[''text'' \<mapsto> Text ''d'', ''label'' \<mapsto> ClassLabel 0]]"
    by (simp add: small_dataset_def)
  have perm: "mset ((\<lambda>g col. rev [0..<length col]) 42 (map (\<lambda>r. r ''label'') small_train))
                = mset [0..<length small_train]"
    by simp
  show ?thesis
    by (rule split_partitions_train_and_keeps_test
          [where shuffle = "\<lambda>g col. rev [0..<length col]" and ds = small_dataset
             and tr = small_train and entropy = 0, OF tr te perm])
qed

subsection \<open>Reproducibility\<close>

text \<open>
  C5. For every proportion \<open>p\<close>, seed \<open>s\<close> and source dataset, two runs of the splitter,
  whatever else differs between them, give the same assignment of positions and the same
  partitions; so do two runs of the notebook's split step, which passes its seed.
\<close>

theorem split_is_reproducible:
  "split_indices shuffle run1 p (Some s) col = split_indices shuffle run2 p (Some s) col
   \<and> train_test_split shuffle run1 p (Some s) column rows
       = train_test_split shuffle run2 p (Some s) column rows
   \<and> split_train_validation shuffle run1 ds = split_train_validation shuffle run2 ds"
proof -
  have indices: "split_indices shuffle run1 q (Some g) c = split_indices shuffle run2 q (Some g) c"
    for q g c
    by (simp add: split_indices_def)
  have parts: "train_test_split shuffle run1 q (Some g) k = train_test_split shuffle run2 q (Some g) k"
    for q g k
    by (rule ext) (simp only: train_test_split_def indices)
  have step: "split_train_validation shuffle run1 ds = split_train_validation shuffle run2 ds"
    by (simp only: split_train_validation_def parts)
  from indices parts step show ?thesis
    by simp
qed

text \<open>Without a seed the assignment follows the run: the seed is what fixes it.\<close>

lemma unseeded_split_follows_the_run:
  "split_indices (\<lambda>g col. if even g then [0, 1] else [1, 0]) 0 (1 / 2) None [None, None]
     \<noteq> split_indices (\<lambda>g col. if even g then [0, 1] else [1, 0]) 1 (1 / 2) None [None, None]"
  by (simp add: split_indices_def)

subsection \<open>Sizes\<close>

text \<open>
  C7. The split proportion is the constant one tenth: for every dataset with a train
  partition of \<open>n\<close> rows, and a draw that is a permutation of their positions, the
  validation partition has \<open>n / 10\<close> rows, rounded up, and the new train partition the
  others; for 1000 rows that is exactly 100 and 900.
\<close>

theorem split_sizes_ninety_ten:
  assumes "ds ''train'' = Some tr"
    and "mset (shuffle 42 (map (\<lambda>r. r ''label'') tr)) = mset [0..<length tr]"
  shows "\<exists>ds' new_train validation.
           split_train_validation shuffle entropy ds = Inr ds'
           \<and> ds' ''train'' = Some new_train \<and> ds' ''validation'' = Some validation
           \<and> length validation = nat \<lceil>(1 / 10 :: rat) * of_nat (length tr)\<rceil>
           \<and> length new_train = length tr - length validation
           \<and> (length tr = 1000 \<longrightarrow> length validation = 100 \<and> length new_train = 900)"
proof -
  let ?order = "shuffle 42 (map (\<lambda>r. r ''label'') tr)"
  let ?k = "nat \<lceil>(1 / 10 :: rat) * of_nat (length tr)\<rceil>"
  let ?ds' = "ds(''train'' \<mapsto> map (\<lambda>i. tr ! i) (drop ?k ?order),
                 ''validation'' \<mapsto> map (\<lambda>i. tr ! i) (take ?k ?order))"
  have step: "split_train_validation shuffle entropy ds = Inr ?ds'"
    using assms by (rule split_train_validation_result)
  have len: "length ?order = length tr"
    using assms(2) by (rule permutation_length)
  have k: "?k \<le> length tr"
    by (rule tenth_le)
  have v: "length (map (\<lambda>i. tr ! i) (take ?k ?order)) = ?k"
    using len k by simp
  have t: "length (map (\<lambda>i. tr ! i) (drop ?k ?order))
             = length tr - length (map (\<lambda>i. tr ! i) (take ?k ?order))"
    using len k by simp
  have thousand: "length (map (\<lambda>i. tr ! i) (take ?k ?order)) = 100
                  \<and> length (map (\<lambda>i. tr ! i) (drop ?k ?order)) = 900" if "length tr = 1000"
    using len that by simp
  have train: "?ds' ''train'' = Some (map (\<lambda>i. tr ! i) (drop ?k ?order))"
    by simp
  have validation: "?ds' ''validation'' = Some (map (\<lambda>i. tr ! i) (take ?k ?order))"
    by simp
  from step train validation v t thousand show ?thesis
    by (intro exI [of _ ?ds'] exI [of _ "map (\<lambda>i. tr ! i) (drop ?k ?order)"]
          exI [of _ "map (\<lambda>i. tr ! i) (take ?k ?order)"]) blast
qed

text \<open>A train partition of 1000 rows, drawn in their own order.\<close>

theorem split_sizes_ninety_ten_witness:
  "\<exists>ds' new_train validation.
     split_train_validation (\<lambda>g col. [0..<length col]) 0 thousand_rows = Inr ds'
     \<and> ds' ''train'' = Some new_train \<and> ds' ''validation'' = Some validation
     \<and> length validation = 100 \<and> length new_train = 900"
proof -
  let ?tr = "replicate 1000 [''text'' \<mapsto> Text ''a'', ''label'' \<mapsto> ClassLabel 1]"
  have tr: "thousand_rows ''train'' = Some ?tr"
    by (simp add: thousand_rows_def)
  have perm: "mset ((\<lambda>g col. [0..<length col]) 42 (map (\<lambda>r. r ''label'') ?tr))
                = mset [0..<length ?tr]"
    by simp
  have n: "length ?tr = 1000"
    by simp
  from split_sizes_ninety_ten
         [where shuffle = "\<lambda>g col. [0..<length col]" and ds = thousand_rows and tr = ?tr
            and entropy = 0, OF tr perm] n
  show ?thesis
    by blast
qed

section \<open>Properties of the tokenization\<close>

lemma preprocess_function_text:
  "preprocess_function tokenizer (row(''text'' \<mapsto> Text t))
     = Inr (tokenizer t \<lparr>truncation = True, padding = DO_NOT_PAD, max_length = 512\<rparr>)"
  by (simp add: preprocess_function_def getitem_def)

lemma DistilBertTokenizer_truncating_unpadded:
  "DistilBertTokenizer wordpiece sp t \<lparr>truncation = True, padding = DO_NOT_PAD, max_length = n\<rparr>
     = \<lparr>input_ids = cls_token_id sp # take (n - 2) (wordpiece t) @ [sep_token_id sp],
        attention_mask = replicate (Suc (Suc (min (length (wordpiece t)) (n - 2)))) 1\<rparr>"
  by (simp add: DistilBertTokenizer_def Let_def)

text \<open>
  C6. For every input text, the empty one and one of any length included, the encoding
  that the tokenization mapper returns has at most 512 token ids: the ids of the text,
  cut to 510, between the start and the end token. Nothing is padded: the encoding is
  not filled up to 512 and no position is masked out.
\<close>

theorem tokenized_length_at_most_512:
  "\<exists>enc. preprocess_function (DistilBertTokenizer wordpiece sp) (row(''text'' \<mapsto> Text t)) = Inr enc
     \<and> length (input_ids enc) \<le> 512
     \<and> length (input_ids enc) = min (length (wordpiece t)) 510 + 2
     \<and> input_ids enc = cls_token_id sp # take 510 (wordpiece t) @ [sep_token_id sp]
     \<and> attention_mask enc = replicate (length (input_ids enc)) 1"
  by (simp add: preprocess_function_text DistilBertTokenizer_truncating_unpadded)

text \<open>The empty text, and a text of 100000 characters with one token id per character.\<close>

lemma tokenized_empty_text:
  "preprocess_function (DistilBertTokenizer (map of_char) sp) [''text'' \<mapsto> Text ''''] =
     Inr \<lparr>input_ids = [cls_token_id sp, sep_token_id sp], attention_mask = [1, 1]\<rparr>"
  by (simp add: preprocess_function_text DistilBertTokenizer_truncating_unpadded)

lemma tokenized_long_text:
  "\<exists>enc. preprocess_function (DistilBertTokenizer (map of_char) sp)
            [''text'' \<mapsto> Text (replicate 100000 CHR ''a'')] = Inr enc
         \<and> length (input_ids enc) = 512"
  by (simp add: preprocess_function_text DistilBertTokenizer_truncating_unpadded)

text \<open>
  C8. The tokenization mapper is a function of the row's text and the tokenizer alone,
  whatever the other columns hold; and for every tokenizer and every row with a text,
  mapping the mapped row again gives the mapped row: the text is left as it was and the
  encoding fields are written with the same values.
\<close>

theorem tokenization_mapper_idempotent:
  "preprocess_function tokenizer (row(''text'' \<mapsto> Text t))
     = preprocess_function tokenizer (other_row(''text'' \<mapsto> Text t))
   \<and> (\<exists>row'. map_example (preprocess_function tokenizer) (row(''text'' \<mapsto> Text t)) = Inr row'
         \<and> row' ''text'' = Some (Text t)
         \<and> map_example (preprocess_function tokenizer) row' = Inr row')"
proof -
  let ?enc = "tokenizer t \<lparr>truncation = True, padding = DO_NOT_PAD, max_length = 512\<rparr>"
  let ?row' = "(row(''text'' \<mapsto> Text t))(''input_ids'' \<mapsto> Ids (input_ids ?enc),
                 ''attention_mask'' \<mapsto> Ids (attention_mask ?enc))"
  have same: "preprocess_function tokenizer (row(''text'' \<mapsto> Text t))
                = preprocess_function tokenizer (other_row(''text'' \<mapsto> Text t))"
    by (simp only: preprocess_function_text)
  have once: "map_example (preprocess_function tokenizer) (row(''text'' \<mapsto> Text t)) = Inr ?row'"
    by (simp add: map_example_def preprocess_function_text)
  have kept: "?row' ''text'' = Some (Text t)"
    by simp
  then have "preprocess_function tokenizer ?row' = Inr ?enc"
    by (simp add: preprocess_function_def getitem_def)
  then have twice: "map_example (preprocess_function tokenizer) ?row' = Inr ?row'"
    by (simp add: map_example_def)
  from same once kept twice show ?thesis
    by blast
qed

section \<open>Properties of the fine-tuning configuration\<close>

text \<open>
  C3, as amended. The training configuration fixed at invocation holds a learning rate,
  the per-device train and eval batch sizes, an epoch count, a weight-decay coefficient, a
  steps-based cadence for evaluating and for saving checkpoints, a cap on the checkpoints
  kept, weighted F1 as the model-selection metric and the reload of the best checkpoint at
  the end of training. The trainer is built without callbacks: no early-stopping policy
  is configured.
\<close>

theorem training_configuration_items:
  "learning_rate (trainer_args trainer) = 1 / 100000
   \<and> per_device_train_batch_size (trainer_args trainer) = 32
   \<and> per_device_eval_batch_size (trainer_args trainer) = 32
   \<and> num_train_epochs (trainer_args trainer) = 1
   \<and> weight_decay (trainer_args trainer) = 1 / 100
   \<and> evaluation_strategy (trainer_args trainer) = ''steps''
   \<and> save_strategy (trainer_args trainer) = ''steps''
   \<and> save_total_limit (trainer_args trainer) = 2
   \<and> metric_for_best_model (trainer_args trainer) = ''f1''
   \<and> metric (trainer_compute_metrics trainer) = ''f1''
   \<and> average (trainer_compute_metrics trainer) = ''weighted''
   \<and> load_best_model_at_end (trainer_args trainer) = True
   \<and> callbacks trainer = []"
  by (simp add: trainer_def Trainer_def args_def compute_metrics_def metric_choice_def)

text \<open>The configuration has no early-stopping policy.\<close>

theorem no_early_stopping_policy:
  "early_stopping_policy trainer = False"
  by (simp add: early_stopping_policy_def trainer_def Trainer_def)

end
